theory Spec2Isabelle
  imports Main
begin

section \<open>The module test harness \<^verbatim>\<open>hacking/test-module.py\<close>\<close>

text \<open>
  A shallow embedding of \<^verbatim>\<open>hacking/test-module.py\<close>: the functions
  \<^verbatim>\<open>boilerplate_module\<close>, \<^verbatim>\<open>ansiballz_setup\<close>, \<^verbatim>\<open>runtest\<close>,
  \<^verbatim>\<open>main\<close> and the \<^verbatim>\<open>__main__\<close> block.

  Conventions.
  \<^item> A Python \<^verbatim>\<open>str\<close> is a list of Unicode code points (\<open>str\<close>); a Python
    \<^verbatim>\<open>bytes\<close> is a list of 8-bit characters (\<open>bytes\<close>). \<open>lit\<close> turns an
    ASCII literal of the source into a \<open>str\<close>.
  \<^item> An exception is a value of type \<open>error\<close>; a function that can raise returns
    \<open>error + 'a\<close>, with \<open>Inl\<close> for the exception.
  \<^item> What a function prints and the calls it makes into the operating system are
    recorded, in order, in a list of \<open>event\<close>s returned beside the result.
  \<^item> The collaborators the file imports (the packaging engine, the data loader, the
    text converter, \<^verbatim>\<open>json\<close>, \<^verbatim>\<open>subprocess\<close>, the file system) are fields of the
    record \<open>env\<close>; the configuration constants are fields of the record \<open>config\<close>.
    Calls to the operating system (\<^verbatim>\<open>os.chmod\<close>, \<^verbatim>\<open>open\<close>, \<^verbatim>\<open>Popen\<close>) are taken
    to succeed.
\<close>

subsection \<open>Strings\<close>

type_synonym str = "nat list"
type_synonym bytes = "char list"

definition lit :: "string \<Rightarrow> str" where
  "lit s = map of_char s"

text \<open>\<^verbatim>\<open>s.startswith(p)\<close>\<close>

fun startswith :: "'a list \<Rightarrow> 'a list \<Rightarrow> bool" where
  "startswith s [] = True"
| "startswith [] (p # ps) = False"
| "startswith (c # cs) (p # ps) = (c = p \<and> startswith cs ps)"

text \<open>\<^verbatim>\<open>sub in s\<close> for strings: \<open>sub\<close> occurs in \<open>s\<close> as a contiguous block.\<close>

fun contains :: "'a list \<Rightarrow> 'a list \<Rightarrow> bool" where
  "contains sub [] = startswith [] sub"
| "contains sub (c # cs) = (if startswith (c # cs) sub then True else contains sub cs)"

text \<open>
  \<^verbatim>\<open>str.splitlines()\<close>: a line ends at \<^verbatim>\<open>\n\<close>, \<^verbatim>\<open>\r\<close>, \<^verbatim>\<open>\r\n\<close>, \<^verbatim>\<open>\v\<close>, \<^verbatim>\<open>\f\<close>,
  \<^verbatim>\<open>\x1c\<close>, \<^verbatim>\<open>\x1d\<close>, \<^verbatim>\<open>\x1e\<close>, \<^verbatim>\<open>\x85\<close>, U+2028 or U+2029; the line
  ends are dropped, and a string that ends with a line end has no empty last line.
\<close>

definition is_linebreak :: "nat \<Rightarrow> bool" where
  "is_linebreak c = (c \<in> set [0x0A, 0x0B, 0x0C, 0x0D, 0x1C, 0x1D, 0x1E, 0x85, 0x2028, 0x2029])"

fun splitlines_from :: "str \<Rightarrow> str \<Rightarrow> str list" where
  "splitlines_from cur [] = (if cur = [] then [] else [cur])"
| "splitlines_from cur (c # cs) =
     (if c = 0x0D then
        (case cs of
           [] \<Rightarrow> [cur]
         | d # ds \<Rightarrow> if d = 0x0A then cur # splitlines_from [] ds
                     else cur # splitlines_from [] (d # ds))
      else if is_linebreak c then cur # splitlines_from [] cs
      else splitlines_from (cur @ [c]) cs)"

definition splitlines :: "str \<Rightarrow> str list" where
  "splitlines s = splitlines_from [] s"

text \<open>\<^verbatim>\<open>str.strip()\<close>: the characters for which \<^verbatim>\<open>str.isspace\<close> holds are removed at both ends.\<close>

definition is_space :: "nat \<Rightarrow> bool" where
  "is_space c =
     (c \<in> set ([0x09, 0x0A, 0x0B, 0x0C, 0x0D, 0x1C, 0x1D, 0x1E, 0x1F, 0x20, 0x85, 0xA0, 0x1680]
               @ [0x2000 ..< 0x200B] @ [0x2028, 0x2029, 0x202F, 0x205F, 0x3000]))"

definition strip :: "str \<Rightarrow> str" where
  "strip s = rev (dropWhile is_space (rev (dropWhile is_space s)))"

text \<open>\<^verbatim>\<open>os.path.basename\<close>, \<^verbatim>\<open>os.path.splitext\<close> and \<^verbatim>\<open>os.path.join\<close> of \<^verbatim>\<open>posixpath\<close>.\<close>

definition os_path_basename :: "str \<Rightarrow> str" where
  "os_path_basename p = rev (takeWhile (\<lambda>c. c \<noteq> 0x2F) (rev p))"

definition rfind :: "str \<Rightarrow> nat \<Rightarrow> int" where
  "rfind p c = (case filter (\<lambda>i. p ! i = c) (rev [0 ..< length p]) of [] \<Rightarrow> - 1 | i # _ \<Rightarrow> int i)"

definition os_path_splitext :: "str \<Rightarrow> str \<times> str" where
  "os_path_splitext p =
     (let sepIndex = rfind p 0x2F; dotIndex = rfind p 0x2E in
      if dotIndex > sepIndex \<and>
         filter (\<lambda>c. c \<noteq> 0x2E) (take (nat (dotIndex - (sepIndex + 1))) (drop (nat (sepIndex + 1)) p)) \<noteq> []
      then (take (nat dotIndex) p, drop (nat dotIndex) p)
      else (p, []))"

definition os_path_join :: "str \<Rightarrow> str \<Rightarrow> str" where
  "os_path_join a b =
     (if startswith b (lit ''/'') then b
      else if a = [] then b
      else if last a = 0x2F then a @ b
      else a @ lit ''/'' @ b)"

subsection \<open>Values, exceptions, events\<close>

text \<open>The Python values that travel in the argument dictionary and come out of \<^verbatim>\<open>json.loads\<close>.\<close>

datatype pyval =
    PNone
  | PBool bool
  | PInt int
  | PStr str
  | PList "pyval list"
  | PDict "(str \<times> pyval) list"

type_synonym pydict = "str \<rightharpoonup> pyval"

text \<open>
  The argument of \<^verbatim>\<open>sys.exit\<close>, and the exceptions: \<open>NameError n\<close> is raised when the
  name \<open>n\<close> is looked up and is bound neither in the module nor in the builtins;
  \<open>Raised k\<close> is an exception of kind \<open>k\<close> raised inside a collaborator.
\<close>

datatype exit_arg = ExitNone | ExitInt int | ExitStr str

datatype error =
    NameError str
  | SystemExit exit_arg
  | Raised str

text \<open>
  What the harness does to the outside, in order: \<open>Print s\<close> is \<^verbatim>\<open>print(s)\<close>,
  \<open>PrintExc e\<close> is \<^verbatim>\<open>traceback.print_exc()\<close> while \<open>e\<close> is being handled.
\<close>

datatype event =
    Print str
  | PrintExc error
  | Chmod str
  | WriteFile str bytes
  | ModifyModule str str pydict "str \<rightharpoonup> str"
  | PopenShell str
  | PopenArgv "str list"
  | Rmtree pyval

subsection \<open>Configuration and collaborators\<close>

text \<open>
  The constants of \<^verbatim>\<open>ansible.constants\<close> and \<^verbatim>\<open>ansible.release\<close> that the file reads;
  their values are not part of the file.
\<close>

record config =
  DEFAULT_SELINUX_SPECIAL_FS :: pyval
  DEFAULT_LOCAL_TMP :: pyval
  DEFAULT_KEEP_REMOTE_FILES :: pyval
  ansible_version :: pyval

text \<open>The namespace \<^verbatim>\<open>parse()\<close> returns; the field \<open>arg_x\<close> is the attribute \<^verbatim>\<open>args.x\<close>.\<close>

record namespace =
  arg_module_path :: str
  arg_module_args :: str
  arg_debugger :: "str option"
  arg_interpreter :: str
  arg_check :: bool
  arg_execute :: bool
  arg_filename :: str

text \<open>
  The collaborators, as the file calls them:
  \<^item> \<open>parse\<close>: the outcome of \<^verbatim>\<open>parse()\<close> on the command line of the process;
  \<^item> \<open>get_interpreters\<close>: \<^verbatim>\<open>module_common.get_interpreters\<close>;
  \<^item> \<open>load_from_file\<close>, \<open>loader_load\<close>: \<^verbatim>\<open>DataLoader.load_from_file\<close> and \<^verbatim>\<open>DataLoader.load\<close>;
  \<^item> \<open>parse_kv\<close>: \<^verbatim>\<open>module_common.parse_kv\<close>;
  \<^item> \<open>modify_module\<close>: \<^verbatim>\<open>module_common.modify_module\<close>, called with the module name, the
    module path, the argument dictionary and the task variables, returning the payload,
    the style and the shebang;
  \<^item> \<open>to_text\<close>: \<^verbatim>\<open>to_text(b)\<close>; \<open>to_text_strict\<close>: \<^verbatim>\<open>to_text(b, errors='surrogate_or_strict')\<close>;
  \<^item> \<open>expanduser\<close>: \<^verbatim>\<open>os.path.expanduser\<close>;
  \<^item> \<open>popen_shell\<close>: standard output and standard error of
    \<^verbatim>\<open>subprocess.Popen(invoke, shell=True, ...).communicate()\<close>; \<open>popen_argv\<close>: the same for
    an argument list without a shell;
  \<^item> \<open>json_loads\<close>: \<^verbatim>\<open>json.loads\<close>; \<open>json_dumps\<close>: \<^verbatim>\<open>json.dumps(v, indent=4, sort_keys=True)\<close>;
  \<^item> \<open>glob_glob\<close>: \<^verbatim>\<open>glob.glob\<close>; \<open>os_walk\<close>: the triples \<^verbatim>\<open>os.walk\<close> yields, in order.

  The attributes the file reads from the modules it imports are taken to exist, and
  \<^verbatim>\<open>DataLoader()\<close>, \<^verbatim>\<open>Templar(...)\<close>, \<^verbatim>\<open>init_plugin_loader()\<close> and
  \<^verbatim>\<open>get_interpreters\<close> to return.
\<close>

record env =
  parse :: "error + namespace"
  get_interpreters :: "str \<Rightarrow> (str \<rightharpoonup> str)"
  load_from_file :: "str \<Rightarrow> error + pydict"
  loader_load :: "str \<Rightarrow> error + pydict"
  parse_kv :: "str \<Rightarrow> error + pydict"
  modify_module :: "str \<Rightarrow> str \<Rightarrow> pydict \<Rightarrow> (str \<rightharpoonup> str) \<Rightarrow> error + (bytes \<times> str \<times> str)"
  to_text :: "bytes \<Rightarrow> str"
  to_text_strict :: "bytes \<Rightarrow> str"
  expanduser :: "str \<Rightarrow> str"
  popen_shell :: "str \<Rightarrow> bytes \<times> bytes"
  popen_argv :: "str list \<Rightarrow> bytes \<times> bytes"
  json_loads :: "str \<Rightarrow> error + pyval"
  json_dumps :: "pyval \<Rightarrow> str"
  glob_glob :: "str \<Rightarrow> str list"
  os_walk :: "str \<Rightarrow> (str \<times> str list \<times> str list) list"

subsection \<open>The names the module binds\<close>

text \<open>
  The global names of the module when its functions run: the names its \<^verbatim>\<open>import\<close>
  statements bind (lines 25 to 41) and the functions it defines. A name that is looked
  up and is neither here nor a builtin raises \<^verbatim>\<open>NameError\<close>. The file uses
  \<^verbatim>\<open>utils_vars\<close> (lines 90, 93, 98), \<^verbatim>\<open>glob\<close> (lines 194, 195), \<^verbatim>\<open>rundebug\<close> (line 219)
  and \<^verbatim>\<open>shutil\<close> (line 228); none of them is imported or defined, and none is a builtin.
\<close>

definition module_globals :: "str list" where
  "module_globals = map lit
     [''absolute_import'', ''division'', ''print_function'',
      ''argparse'', ''json'', ''os'', ''subprocess'', ''sys'', ''traceback'',
      ''to_text'', ''DataLoader'', ''init_plugin_loader'', ''Templar'',
      ''__version__'', ''module_common'', ''C'',
      ''parse'', ''boilerplate_module'', ''runtest'', ''ansiballz_setup'', ''main'']"

definition load_global :: "str \<Rightarrow> error + unit" where
  "load_global n = (if n \<in> set module_globals then Inr () else Inl (NameError n))"

subsection \<open>\<^verbatim>\<open>boilerplate_module\<close>\<close>

text \<open>
  Modelled from the spec: \<^verbatim>\<open>utils_vars.combine_vars\<close>, which is not in the file (and whose
  name the file never binds). The spec: later values overwrite earlier values for the
  same key, with no deep merging.
\<close>

definition combine_vars :: "pydict \<Rightarrow> pydict \<Rightarrow> pydict" where
  "combine_vars a b = a ++ b"

text \<open>Lines 82 to 87: the dictionary with the four injected keys.\<close>

definition reserved_args :: "config \<Rightarrow> pydict" where
  "reserved_args cfg =
     (Map.empty
        (lit ''_ansible_selinux_special_fs'' \<mapsto> DEFAULT_SELINUX_SPECIAL_FS cfg,
         lit ''_ansible_tmpdir'' \<mapsto> DEFAULT_LOCAL_TMP cfg,
         lit ''_ansible_keep_remote_files'' \<mapsto> DEFAULT_KEEP_REMOTE_FILES cfg,
         lit ''_ansible_version'' \<mapsto> ansible_version cfg))"

text \<open>
  Lines 89 to 94: the \<^verbatim>\<open>@file\<close> and the literal-document branches. The callee
  \<^verbatim>\<open>utils_vars.combine_vars\<close> is evaluated before its arguments, so the name is looked up
  before the loader is called. The result is the dictionary and the remaining
  argument string.
\<close>

definition load_args :: "env \<Rightarrow> pydict \<Rightarrow> str \<Rightarrow> error + (pydict \<times> str)" where
  "load_args env complex_args args =
     (if startswith args (lit ''@'') then
        (case load_global (lit ''utils_vars'') of
           Inl e \<Rightarrow> Inl e
         | Inr _ \<Rightarrow>
             (case load_from_file env (drop 1 args) of
                Inl e \<Rightarrow> Inl e
              | Inr loaded \<Rightarrow> Inr (combine_vars complex_args loaded, [])))
      else if startswith args (lit ''{'') then
        (case load_global (lit ''utils_vars'') of
           Inl e \<Rightarrow> Inl e
         | Inr _ \<Rightarrow>
             (case loader_load env args of
                Inl e \<Rightarrow> Inl e
              | Inr loaded \<Rightarrow> Inr (combine_vars complex_args loaded, [])))
      else Inr (complex_args, args))"

text \<open>Lines 96 to 98: the \<^verbatim>\<open>key=value\<close> branch, taken when the argument string is not empty.\<close>

definition parse_args :: "env \<Rightarrow> pydict \<Rightarrow> str \<Rightarrow> error + pydict" where
  "parse_args env complex_args args =
     (if args \<noteq> [] then
        (case parse_kv env args of
           Inl e \<Rightarrow> Inl e
         | Inr parsed_args \<Rightarrow>
             (case load_global (lit ''utils_vars'') of
                Inl e \<Rightarrow> Inl e
              | Inr _ \<Rightarrow> Inr (combine_vars complex_args parsed_args)))
      else Inr complex_args)"

text \<open>Lines 82 to 103: the argument dictionary handed to \<^verbatim>\<open>modify_module\<close>.\<close>

definition boilerplate_module_args :: "config \<Rightarrow> env \<Rightarrow> str \<Rightarrow> bool \<Rightarrow> error + pydict" where
  "boilerplate_module_args cfg env args check =
     (case load_args env (reserved_args cfg) args of
        Inl e \<Rightarrow> Inl e
      | Inr (complex_args, args') \<Rightarrow>
          (case parse_args env complex_args args' of
             Inl e \<Rightarrow> Inl e
           | Inr complex_args' \<Rightarrow>
               Inr (if check then complex_args'(lit ''_ansible_check_mode'' \<mapsto> PBool True)
                    else complex_args')))"

text \<open>Lines 115 and 116: the style after the test for the wrapper marker.\<close>

definition ANSIBALLZ_MARKER :: str where
  "ANSIBALLZ_MARKER = lit ''_ANSIBALLZ_WRAPPER = True''"

definition final_style :: "str \<Rightarrow> str \<Rightarrow> str" where
  "final_style module_style module_text =
     (if module_style = lit ''new'' \<and> contains ANSIBALLZ_MARKER module_text
      then lit ''ansiballz'' else module_style)"

definition saving_note :: "str \<Rightarrow> str" where
  "saving_note modfile2_path = lit ''* including generated source, if any, saving to: '' @ modfile2_path"

definition offset_warning :: str where
  "offset_warning = lit ''* this may offset any line numbers in tracebacks/debuggers!''"

text \<open>
  The whole function: the path of the written file, the module name and the style,
  with the events in the order of the source.
\<close>

definition boilerplate_module ::
  "config \<Rightarrow> env \<Rightarrow> str \<Rightarrow> str \<Rightarrow> (str \<rightharpoonup> str) \<Rightarrow> bool \<Rightarrow> str \<Rightarrow> (error + (str \<times> str \<times> str)) \<times> event list" where
  "boilerplate_module cfg env modfile args interpreters check destfile =
     (case boilerplate_module_args cfg env args check of
        Inl e \<Rightarrow> (Inl e, [])
      | Inr complex_args \<Rightarrow>
          (let task_vars = interpreters;
               modname = fst (os_path_splitext (os_path_basename modfile))
           in case modify_module env modname modfile complex_args task_vars of
                Inl e \<Rightarrow> (Inl e, [ModifyModule modname modfile complex_args task_vars])
              | Inr (module_data, module_style, shebang) \<Rightarrow>
                  (let module_style' = final_style module_style (to_text env module_data);
                       modfile2_path = expanduser env destfile
                   in (Inr (modfile2_path, modname, module_style'),
                       [ModifyModule modname modfile complex_args task_vars,
                        Print (saving_note modfile2_path)]
                       @ (if module_style' \<notin> set [lit ''ansiballz'', lit ''old''] then [Print offset_warning] else [])
                       @ [WriteFile modfile2_path module_data]))))"

subsection \<open>\<^verbatim>\<open>ansiballz_setup\<close>\<close>

definition STARS :: str where
  "STARS = replicate 35 0x2A"

definition EXPANDED_MARKER :: str where
  "EXPANDED_MARKER = lit ''Module expanded into''"

definition INTERPRETER_KEY :: str where
  "INTERPRETER_KEY = lit ''ansible_python_interpreter''"

text \<open>Lines 177 to 181: the command that explodes the wrapped module.\<close>

definition explode_command :: "(str \<rightharpoonup> str) \<Rightarrow> str \<Rightarrow> str list" where
  "explode_command interpreters modfile =
     (case interpreters INTERPRETER_KEY of Some i \<Rightarrow> [i] | None \<Rightarrow> [])
     @ [modfile, lit ''explode'']"

text \<open>
  Lines 197 to 202, from the inside out. The \<^verbatim>\<open>break\<close> of line 202 leaves the loop over
  the file names of one directory only: the loops over the directories of the walk
  and over the module directories go on, and a later match assigns \<^verbatim>\<open>modfile\<close> again.
\<close>

fun find_in_filenames :: "str \<Rightarrow> str \<Rightarrow> str list \<Rightarrow> str \<Rightarrow> str" where
  "find_in_filenames modname dirname [] modfile = modfile"
| "find_in_filenames modname dirname (filename # filenames) modfile =
     (if filename = modname @ lit ''.py'' then os_path_join dirname filename
      else find_in_filenames modname dirname filenames modfile)"

definition find_in_walk :: "str \<Rightarrow> (str \<times> str list \<times> str list) list \<Rightarrow> str \<Rightarrow> str" where
  "find_in_walk modname walk modfile =
     fold (\<lambda>(dirname, directories, filenames) mf. find_in_filenames modname dirname filenames mf)
       walk modfile"

definition find_module :: "env \<Rightarrow> str \<Rightarrow> str list \<Rightarrow> str \<Rightarrow> str" where
  "find_module env modname module_dirs modfile =
     fold (\<lambda>module_dir mf. find_in_walk modname (os_walk env module_dir) mf) module_dirs modfile"

definition wrapper_banner :: str where
  "wrapper_banner = lit ''INVALID OUTPUT FROM ANSIBALLZ MODULE WRAPPER''"

definition extracted_note :: "str \<Rightarrow> str" where
  "extracted_note debug_dir = lit ''* ansiballz module detected; extracted module source to: '' @ debug_dir"

text \<open>Lines 188 to 191: the report of an explode output that breaks the protocol.\<close>

definition protocol_violation :: "str \<Rightarrow> str \<Rightarrow> (error + (str \<times> str)) \<times> event list" where
  "protocol_violation out err =
     (Inl (SystemExit (ExitStr err)), [Print STARS, Print wrapper_banner, Print out])"

text \<open>
  The whole function. The test of line 187 is an \<^verbatim>\<open>or\<close>: its second operand is
  evaluated only when there are two lines. In line 194 the name \<^verbatim>\<open>glob\<close> is looked up
  before anything else of the call is evaluated.
\<close>

definition ansiballz_setup ::
  "env \<Rightarrow> str \<Rightarrow> str \<Rightarrow> (str \<rightharpoonup> str) \<Rightarrow> (error + (str \<times> str)) \<times> event list" where
  "ansiballz_setup env modfile modname interpreters =
     (let command = explode_command interpreters modfile;
          out = to_text_strict env (fst (popen_argv env command));
          err = to_text env (snd (popen_argv env command));
          lines = splitlines out;
          evs = [Chmod modfile, PopenArgv command]
      in if length lines = 2 then
           (if contains EXPANDED_MARKER (lines ! 0) then
              (let debug_dir = strip (lines ! 1)
               in case load_global (lit ''glob'') of
                    Inl e \<Rightarrow> (Inl e, evs)
                  | Inr _ \<Rightarrow>
                      (let core_dirs = glob_glob env (os_path_join debug_dir (lit ''ansible/modules''));
                           collection_dirs =
                             glob_glob env (os_path_join debug_dir (lit ''ansible_collections/*/*/plugins/modules''));
                           modfile' = find_module env modname (core_dirs @ collection_dirs) modfile;
                           argsfile = os_path_join debug_dir (lit ''args'')
                       in (Inr (modfile', argsfile), evs @ [Print (extracted_note debug_dir)])))
            else (fst (protocol_violation out err), evs @ snd (protocol_violation out err)))
         else (fst (protocol_violation out err), evs @ snd (protocol_violation out err)))"

subsection \<open>\<^verbatim>\<open>runtest\<close>\<close>

text \<open>Lines 136 to 140: the file to run and the prefix of the command line.\<close>

definition runtest_setup ::
  "env \<Rightarrow> str \<Rightarrow> str \<Rightarrow> str \<Rightarrow> (str \<rightharpoonup> str) \<Rightarrow> (error + (str \<times> str)) \<times> event list" where
  "runtest_setup env modfile modname module_style interpreters =
     (if module_style = lit ''ansiballz'' then
        (case ansiballz_setup env modfile modname interpreters of
           (Inl e, evs) \<Rightarrow> (Inl e, evs)
         | (Inr (modfile', argsfile), evs) \<Rightarrow>
             (Inr (modfile',
                   case interpreters INTERPRETER_KEY of Some i \<Rightarrow> i @ lit '' '' | None \<Rightarrow> []),
              evs))
      else (Inr (modfile, []), []))"

text \<open>
  Lines 142 to 164: the module is run through a shell, its output is printed and
  decoded. When \<^verbatim>\<open>json.loads\<close> raises, the handler prints and calls \<^verbatim>\<open>sys.exit(1)\<close>;
  otherwise lines 162 to 164 print the decoded value.
\<close>

definition runtest_run :: "env \<Rightarrow> str \<Rightarrow> str \<Rightarrow> (error + unit) \<times> event list" where
  "runtest_run env modfile invoke =
     (let invoke' = invoke @ modfile;
          out = to_text env (fst (popen_shell env invoke'));
          err = to_text env (snd (popen_shell env invoke'));
          evs = [Chmod modfile, PopenShell invoke',
                 Print STARS, Print (lit ''RAW OUTPUT''), Print out, Print err]
      in case json_loads env out of
           Inl e \<Rightarrow>
             (Inl (SystemExit (ExitInt 1)),
              evs @ [Print STARS, Print (lit ''INVALID OUTPUT FORMAT''), Print out, PrintExc e])
         | Inr results \<Rightarrow>
             (Inr (),
              evs @ [Print STARS, Print (lit ''PARSED OUTPUT''), Print (json_dumps env results)]))"

definition runtest ::
  "env \<Rightarrow> str \<Rightarrow> str \<Rightarrow> str \<Rightarrow> (str \<rightharpoonup> str) \<Rightarrow> (error + unit) \<times> event list" where
  "runtest env modfile modname module_style interpreters =
     (case runtest_setup env modfile modname module_style interpreters of
        (Inl e, evs) \<Rightarrow> (Inl e, evs)
      | (Inr (modfile', invoke), evs) \<Rightarrow>
          (fst (runtest_run env modfile' invoke), evs @ snd (runtest_run env modfile' invoke)))"

subsection \<open>\<^verbatim>\<open>main\<close> and the process\<close>

text \<open>\<^verbatim>\<open>if args.debugger:\<close> holds for a string that is not empty.\<close>

definition truthy :: "str option \<Rightarrow> bool" where
  "truthy v = (case v of None \<Rightarrow> False | Some s \<Rightarrow> s \<noteq> [])"

text \<open>
  Lines 210 to 221. The file neither defines nor imports \<^verbatim>\<open>rundebug\<close>, so line 219
  raises \<^verbatim>\<open>NameError\<close>.
\<close>

definition main :: "config \<Rightarrow> env \<Rightarrow> (error + unit) \<times> event list" where
  "main cfg env =
     (case parse env of
        Inl e \<Rightarrow> (Inl e, [])
      | Inr args \<Rightarrow>
          (let interpreters = get_interpreters env (arg_interpreter args)
           in case boilerplate_module cfg env (arg_module_path args) (arg_module_args args)
                     interpreters (arg_check args) (arg_filename args) of
                (Inl e, evs) \<Rightarrow> (Inl e, evs)
              | (Inr (modfile, modname, module_style), evs) \<Rightarrow>
                  (if arg_execute args then
                     (if truthy (arg_debugger args) then (Inl (NameError (lit ''rundebug'')), evs)
                      else (fst (runtest env modfile modname module_style interpreters),
                            evs @ snd (runtest env modfile modname module_style interpreters)))
                   else (Inr (), evs))))"

text \<open>
  Lines 224 to 228: \<^verbatim>\<open>main()\<close> under \<^verbatim>\<open>try\<close>, with \<^verbatim>\<open>shutil.rmtree\<close> in the
  \<^verbatim>\<open>finally\<close> clause. An exception raised in the \<^verbatim>\<open>finally\<close> clause replaces the
  outcome of the \<^verbatim>\<open>try\<close> block; when the clause completes, that outcome stands.
\<close>

definition script :: "config \<Rightarrow> env \<Rightarrow> (error + unit) \<times> event list" where
  "script cfg env =
     (case load_global (lit ''shutil'') of
        Inl e \<Rightarrow> (Inl e, snd (main cfg env))
      | Inr _ \<Rightarrow> (fst (main cfg env), snd (main cfg env) @ [Rmtree (DEFAULT_LOCAL_TMP cfg)]))"

text \<open>
  The exit status of the process, from the outcome of the script: \<open>0\<close> when it
  completes or ends in \<^verbatim>\<open>sys.exit()\<close> without a value, the low eight bits of an integer
  value, and \<open>1\<close> for a \<^verbatim>\<open>sys.exit\<close> with a string (which is printed to standard
  error) and for any exception that is not caught.
\<close>

fun exit_status :: "error + unit \<Rightarrow> nat" where
  "exit_status (Inr u) = 0"
| "exit_status (Inl (SystemExit ExitNone)) = 0"
| "exit_status (Inl (SystemExit (ExitInt n))) = nat (n mod 256)"
| "exit_status (Inl (SystemExit (ExitStr s))) = 1"
| "exit_status (Inl (NameError n)) = 1"
| "exit_status (Inl (Raised k)) = 1"

subsection \<open>A concrete run\<close>

text \<open>
  A configuration and collaborators for concrete runs: the module \<^verbatim>\<open>/tmp/ping.py\<close>,
  no arguments, the interpreter \<^verbatim>\<open>/usr/bin/python\<close>. The packaging engine returns the
  given payload and style, the module writes the given bytes to its standard output,
  the explode child writes the given bytes to its standard output and
  \<^verbatim>\<open>explode failed\<close> to its standard error. All bytes are ASCII, which \<^verbatim>\<open>to_text\<close>
  decodes to the same code points. \<^verbatim>\<open>json.loads\<close> decodes the one document
  \<^verbatim>\<open>{"changed": false, "msg": "ok"}\<close> and raises on every other text. The debug directory
  \<^verbatim>\<open>/tmp/debug_dir\<close> holds \<^verbatim>\<open>ansible/modules/ping.py\<close> and \<^verbatim>\<open>ansible/modules/net/ping.py\<close>.
\<close>

definition mock_config :: config where
  "mock_config =
     \<lparr>DEFAULT_SELINUX_SPECIAL_FS = PList [PStr (lit ''fuse''), PStr (lit ''nfs'')],
      DEFAULT_LOCAL_TMP = PStr (lit ''/tmp/ansible-local''),
      DEFAULT_KEEP_REMOTE_FILES = PBool False,
      ansible_version = PStr (lit ''2.17.0'')\<rparr>"

definition mock_namespace :: namespace where
  "mock_namespace =
     \<lparr>arg_module_path = lit ''/tmp/ping.py'',
      arg_module_args = [],
      arg_debugger = None,
      arg_interpreter = lit ''ansible_python_interpreter=/usr/bin/python'',
      arg_check = False,
      arg_execute = True,
      arg_filename = lit ''/tmp/generated''\<rparr>"

definition mock_interpreters :: "str \<rightharpoonup> str" where
  "mock_interpreters = [INTERPRETER_KEY \<mapsto> lit ''/usr/bin/python'']"

definition mock_document :: bytes where
  \<open>mock_document = ''{"changed": false, "msg": "ok"}''\<close>

definition mock_result :: pyval where
  "mock_result = PDict [(lit ''changed'', PBool False), (lit ''msg'', PStr (lit ''ok''))]"

definition mock_pretty :: str where
  \<open>mock_pretty =
     lit ''{'' @ [0x0A] @ lit ''    "changed": false,'' @ [0x0A] @ lit ''    "msg": "ok"'' @ [0x0A] @ lit ''}''\<close>

definition mock_glob :: "str \<Rightarrow> str list" where
  "mock_glob pattern =
     (if pattern = lit ''/tmp/debug_dir/ansible/modules'' then [pattern] else [])"

definition mock_walk :: "str \<Rightarrow> (str \<times> str list \<times> str list) list" where
  "mock_walk module_dir =
     (if module_dir = lit ''/tmp/debug_dir/ansible/modules'' then
        [(lit ''/tmp/debug_dir/ansible/modules'', [lit ''net''], [lit ''ping.py'']),
         (lit ''/tmp/debug_dir/ansible/modules/net'', [], [lit ''__init__.py'', lit ''ping.py''])]
      else [])"

definition mock_env :: "bytes \<Rightarrow> str \<Rightarrow> bytes \<Rightarrow> bytes \<Rightarrow> env" where
  "mock_env payload style module_out explode_out =
     \<lparr>parse = Inr mock_namespace,
      get_interpreters = (\<lambda>s. mock_interpreters),
      load_from_file = (\<lambda>path. Inl (Raised (lit ''AnsibleFileNotFound''))),
      loader_load = (\<lambda>s. Inl (Raised (lit ''AnsibleParserError''))),
      parse_kv = (\<lambda>s. Inr Map.empty),
      modify_module = (\<lambda>modname modfile complex_args task_vars.
                         Inr (payload, style, lit ''#!/usr/bin/python'')),
      to_text = lit,
      to_text_strict = lit,
      expanduser = (\<lambda>p. p),
      popen_shell = (\<lambda>invoke. (module_out, [])),
      popen_argv = (\<lambda>command. (explode_out, ''explode failed'')),
      json_loads = (\<lambda>s. if s = lit mock_document then Inr mock_result
                         else Inl (Raised (lit ''JSONDecodeError''))),
      json_dumps = (\<lambda>v. if v = mock_result then mock_pretty else []),
      glob_glob = mock_glob,
      os_walk = mock_walk\<rparr>"

section \<open>Properties\<close>

subsection \<open>Names that are not bound\<close>

lemma load_global_utils_vars: "load_global (lit ''utils_vars'') = Inl (NameError (lit ''utils_vars''))"
  by (simp add: load_global_def module_globals_def lit_def)

lemma load_global_glob: "load_global (lit ''glob'') = Inl (NameError (lit ''glob''))"
  by (simp add: load_global_def module_globals_def lit_def)

lemma load_global_shutil: "load_global (lit ''shutil'') = Inl (NameError (lit ''shutil''))"
  by (simp add: load_global_def module_globals_def lit_def)

subsection \<open>Arguments and packaging\<close>

lemma boilerplate_module_args_empty:
  "boilerplate_module_args cfg env [] False = Inr (reserved_args cfg)"
  by (simp add: boilerplate_module_args_def load_args_def parse_args_def lit_def)

lemma modname_ping: "fst (os_path_splitext (os_path_basename (lit ''/tmp/ping.py''))) = lit ''ping''"
  by (simp add: lit_def os_path_splitext_def os_path_basename_def rfind_def upt_rec)

lemma note_neq_warning: "saving_note p \<noteq> offset_warning"
  by (simp add: saving_note_def offset_warning_def lit_def)

lemma style_names_distinct:
  "lit ''old'' \<noteq> lit ''new''" "lit ''old'' \<noteq> lit ''ansiballz''" "lit ''new'' \<noteq> lit ''ansiballz''"
  by (simp_all add: lit_def)

text \<open>What the function returns and does once the arguments and the packaging went through.\<close>

lemma boilerplate_module_packaged:
  assumes "boilerplate_module_args cfg env args check = Inr complex_args"
    and "modify_module env (fst (os_path_splitext (os_path_basename modfile))) modfile
           complex_args interpreters = Inr (module_data, reported, shebang)"
  shows "boilerplate_module cfg env modfile args interpreters check destfile =
      (Inr (expanduser env destfile, fst (os_path_splitext (os_path_basename modfile)),
            final_style reported (to_text env module_data)),
       [ModifyModule (fst (os_path_splitext (os_path_basename modfile))) modfile complex_args interpreters,
        Print (saving_note (expanduser env destfile))]
       @ (if final_style reported (to_text env module_data) \<notin> set [lit ''ansiballz'', lit ''old'']
          then [Print offset_warning] else [])
       @ [WriteFile (expanduser env destfile) module_data])"
  using assms by (simp add: boilerplate_module_def Let_def)

text \<open>The concrete run: packaging \<^verbatim>\<open>/tmp/ping.py\<close> with no arguments.\<close>

lemma mock_boilerplate_module:
  "boilerplate_module mock_config (mock_env payload style module_out explode_out)
     (lit ''/tmp/ping.py'') [] mock_interpreters False (lit ''/tmp/generated'') =
   (Inr (lit ''/tmp/generated'', lit ''ping'', final_style style (lit payload)),
    [ModifyModule (lit ''ping'') (lit ''/tmp/ping.py'') (reserved_args mock_config) mock_interpreters,
     Print (saving_note (lit ''/tmp/generated''))]
    @ (if final_style style (lit payload) \<notin> set [lit ''ansiballz'', lit ''old'']
       then [Print offset_warning] else [])
    @ [WriteFile (lit ''/tmp/generated'') payload])"
proof -
  let ?env = "mock_env payload style module_out explode_out"
  have m: "modify_module ?env (fst (os_path_splitext (os_path_basename (lit ''/tmp/ping.py''))))
             (lit ''/tmp/ping.py'') (reserved_args mock_config) mock_interpreters =
           Inr (payload, style, lit ''#!/usr/bin/python'')"
    by (simp add: mock_env_def)
  have e: "expanduser ?env (lit ''/tmp/generated'') = lit ''/tmp/generated''" "to_text ?env = lit"
    by (simp_all add: mock_env_def)
  show ?thesis
    unfolding boilerplate_module_packaged [OF boilerplate_module_args_empty m] e modname_ping ..
qed

lemma marker_in_marker: "contains ANSIBALLZ_MARKER (lit ''_ANSIBALLZ_WRAPPER = True'')"
  by (simp add: ANSIBALLZ_MARKER_def lit_def)

lemma marker_not_in_shebang: "\<not> contains ANSIBALLZ_MARKER (lit ''#!/bin/sh'')"
  by (simp add: ANSIBALLZ_MARKER_def lit_def)

text \<open>
  C10. When the argument string is empty and check mode is off, none of the three
  parsing branches is taken (the result does not depend on the loader or on
  \<^verbatim>\<open>parse_kv\<close>), no exception is raised, and the dictionary passed to
  \<^verbatim>\<open>modify_module\<close> has exactly the four injected keys, each with its default value.
\<close>

theorem empty_args_bundle:
  "boilerplate_module_args cfg env [] False = Inr (reserved_args cfg)
   \<and> dom (reserved_args cfg) =
       {lit ''_ansible_selinux_special_fs'', lit ''_ansible_tmpdir'',
        lit ''_ansible_keep_remote_files'', lit ''_ansible_version''}
   \<and> reserved_args cfg (lit ''_ansible_selinux_special_fs'') = Some (DEFAULT_SELINUX_SPECIAL_FS cfg)
   \<and> reserved_args cfg (lit ''_ansible_tmpdir'') = Some (DEFAULT_LOCAL_TMP cfg)
   \<and> reserved_args cfg (lit ''_ansible_keep_remote_files'') = Some (DEFAULT_KEEP_REMOTE_FILES cfg)
   \<and> reserved_args cfg (lit ''_ansible_version'') = Some (ansible_version cfg)
   \<and> hd (snd (boilerplate_module cfg env modfile [] interpreters False destfile)) =
       ModifyModule (fst (os_path_splitext (os_path_basename modfile))) modfile
         (reserved_args cfg) interpreters"
proof -
  have keys: "dom (reserved_args cfg) =
       {lit ''_ansible_selinux_special_fs'', lit ''_ansible_tmpdir'',
        lit ''_ansible_keep_remote_files'', lit ''_ansible_version''}"
    by (auto simp add: reserved_args_def)
  have vals: "reserved_args cfg (lit ''_ansible_selinux_special_fs'') = Some (DEFAULT_SELINUX_SPECIAL_FS cfg)"
    "reserved_args cfg (lit ''_ansible_tmpdir'') = Some (DEFAULT_LOCAL_TMP cfg)"
    "reserved_args cfg (lit ''_ansible_keep_remote_files'') = Some (DEFAULT_KEEP_REMOTE_FILES cfg)"
    "reserved_args cfg (lit ''_ansible_version'') = Some (ansible_version cfg)"
    by (simp_all add: reserved_args_def lit_def)
  have call: "hd (snd (boilerplate_module cfg env modfile [] interpreters False destfile)) =
       ModifyModule (fst (os_path_splitext (os_path_basename modfile))) modfile
         (reserved_args cfg) interpreters"
    by (simp add: boilerplate_module_def boilerplate_module_args_empty Let_def split: sum.split prod.split)
  from boilerplate_module_args_empty keys vals call show ?thesis by blast
qed

text \<open>
  C1, as amended. When the payload contains the wrapper marker and the packaging engine
  reported the style \<^verbatim>\<open>new\<close>, the returned style is \<^verbatim>\<open>ansiballz\<close>; in every other
  case (the marker is absent, or the reported style is not \<^verbatim>\<open>new\<close>) the reported
  style is returned as it is.
\<close>

theorem boilerplate_module_style:
  assumes "boilerplate_module_args cfg env args check = Inr complex_args"
    and "modify_module env (fst (os_path_splitext (os_path_basename modfile))) modfile
           complex_args interpreters = Inr (module_data, reported, shebang)"
  shows "fst (boilerplate_module cfg env modfile args interpreters check destfile) =
           Inr (expanduser env destfile,
                fst (os_path_splitext (os_path_basename modfile)),
                if reported = lit ''new'' \<and> contains ANSIBALLZ_MARKER (to_text env module_data)
                then lit ''ansiballz'' else reported)"
  by (simp add: boilerplate_module_packaged [OF assms] final_style_def)

theorem boilerplate_module_style_witness:
  "fst (boilerplate_module mock_config (mock_env ''_ANSIBALLZ_WRAPPER = True'' (lit ''new'') [] [])
          (lit ''/tmp/ping.py'') [] mock_interpreters False (lit ''/tmp/generated'')) =
     Inr (lit ''/tmp/generated'', lit ''ping'', lit ''ansiballz'')"
proof -
  let ?env = "mock_env ''_ANSIBALLZ_WRAPPER = True'' (lit ''new'') [] []"
  have a: "boilerplate_module_args mock_config ?env [] False = Inr (reserved_args mock_config)"
    by (rule boilerplate_module_args_empty)
  have m: "modify_module ?env (fst (os_path_splitext (os_path_basename (lit ''/tmp/ping.py''))))
             (lit ''/tmp/ping.py'') (reserved_args mock_config) mock_interpreters =
           Inr (''_ANSIBALLZ_WRAPPER = True'', lit ''new'', lit ''#!/usr/bin/python'')"
    by (simp add: mock_env_def)
  have e: "expanduser ?env (lit ''/tmp/generated'') = lit ''/tmp/generated''" "to_text ?env = lit"
    by (simp_all add: mock_env_def)
  show ?thesis
    using boilerplate_module_style [OF a m, of "lit ''/tmp/generated''"] marker_in_marker e modname_ping
    by simp
qed

text \<open>
  C1 as stated fails: a payload that contains the marker and is reported as \<^verbatim>\<open>old\<close>
  keeps the style \<^verbatim>\<open>old\<close>, because line 115 tests the reported style first.
\<close>

theorem legacy_marker_counterexample:
  "contains ANSIBALLZ_MARKER
     (to_text (mock_env ''_ANSIBALLZ_WRAPPER = True'' (lit ''old'') [] []) ''_ANSIBALLZ_WRAPPER = True'')
   \<and> fst (boilerplate_module mock_config (mock_env ''_ANSIBALLZ_WRAPPER = True'' (lit ''old'') [] [])
          (lit ''/tmp/ping.py'') [] mock_interpreters False (lit ''/tmp/generated'')) =
     Inr (lit ''/tmp/generated'', lit ''ping'', lit ''old'')
   \<and> lit ''old'' \<noteq> lit ''ansiballz''"
proof -
  have c: "contains ANSIBALLZ_MARKER
     (to_text (mock_env ''_ANSIBALLZ_WRAPPER = True'' (lit ''old'') [] []) ''_ANSIBALLZ_WRAPPER = True'')"
    using marker_in_marker by (simp add: mock_env_def)
  have "final_style (lit ''old'') (lit ''_ANSIBALLZ_WRAPPER = True'') = lit ''old''"
    using style_names_distinct by (simp add: final_style_def)
  then have "fst (boilerplate_module mock_config (mock_env ''_ANSIBALLZ_WRAPPER = True'' (lit ''old'') [] [])
          (lit ''/tmp/ping.py'') [] mock_interpreters False (lit ''/tmp/generated'')) =
     Inr (lit ''/tmp/generated'', lit ''ping'', lit ''old'')"
    by (simp add: mock_boilerplate_module)
  with c style_names_distinct show ?thesis by simp
qed

text \<open>
  C6. In a packaging run that returns, the warning about line numbers is printed exactly
  when the returned style is neither \<^verbatim>\<open>ansiballz\<close> nor \<^verbatim>\<open>old\<close>. A reported \<^verbatim>\<open>old\<close>
  never prints it; a reported \<^verbatim>\<open>new\<close> whose payload has the marker is returned as
  \<^verbatim>\<open>ansiballz\<close> and does not print it; any other reported style is returned as it is.
\<close>

theorem offset_warning_iff:
  assumes "boilerplate_module_args cfg env args check = Inr complex_args"
    and "modify_module env (fst (os_path_splitext (os_path_basename modfile))) modfile
           complex_args interpreters = Inr (module_data, reported, shebang)"
    and "boilerplate_module cfg env modfile args interpreters check destfile =
           (Inr (path, modname, style), evs)"
  shows "(Print offset_warning \<in> set evs) = (style \<noteq> lit ''ansiballz'' \<and> style \<noteq> lit ''old'')
       \<and> (if reported = lit ''old'' then Print offset_warning \<notin> set evs
          else if reported = lit ''new'' \<and> contains ANSIBALLZ_MARKER (to_text env module_data)
          then style = lit ''ansiballz'' \<and> Print offset_warning \<notin> set evs
          else style = reported)"
proof -
  from assms(3) have style: "style = final_style reported (to_text env module_data)"
    and evs: "evs = [ModifyModule (fst (os_path_splitext (os_path_basename modfile))) modfile complex_args interpreters,
              Print (saving_note (expanduser env destfile))]
             @ (if style \<notin> set [lit ''ansiballz'', lit ''old''] then [Print offset_warning] else [])
             @ [WriteFile (expanduser env destfile) module_data]"
    unfolding boilerplate_module_packaged [OF assms(1,2)] by auto
  from evs have iff: "(Print offset_warning \<in> set evs) = (style \<noteq> lit ''ansiballz'' \<and> style \<noteq> lit ''old'')"
    using note_neq_warning [of "expanduser env destfile"] by auto
  from style style_names_distinct have rest: "(if reported = lit ''old'' then style = lit ''old''
          else if reported = lit ''new'' \<and> contains ANSIBALLZ_MARKER (to_text env module_data)
          then style = lit ''ansiballz''
          else style = reported)"
    by (simp add: final_style_def)
  from iff rest show ?thesis by (simp split: if_splits)
qed

theorem offset_warning_iff_witness:
  "Print offset_warning \<in>
     set (snd (boilerplate_module mock_config (mock_env ''#!/bin/sh'' (lit ''new'') [] [])
          (lit ''/tmp/ping.py'') [] mock_interpreters False (lit ''/tmp/generated'')))
   \<and> Print offset_warning \<notin>
     set (snd (boilerplate_module mock_config (mock_env ''#!/bin/sh'' (lit ''old'') [] [])
          (lit ''/tmp/ping.py'') [] mock_interpreters False (lit ''/tmp/generated'')))"
proof -
  let ?new = "mock_env ''#!/bin/sh'' (lit ''new'') [] []"
  let ?old = "mock_env ''#!/bin/sh'' (lit ''old'') [] []"
  let ?run = "\<lambda>env. boilerplate_module mock_config env
          (lit ''/tmp/ping.py'') [] mock_interpreters False (lit ''/tmp/generated'')"
  have a: "boilerplate_module_args mock_config env [] False = Inr (reserved_args mock_config)" for env
    by (rule boilerplate_module_args_empty)
  have mn: "modify_module ?new (fst (os_path_splitext (os_path_basename (lit ''/tmp/ping.py''))))
             (lit ''/tmp/ping.py'') (reserved_args mock_config) mock_interpreters =
           Inr (''#!/bin/sh'', lit ''new'', lit ''#!/usr/bin/python'')"
    by (simp add: mock_env_def)
  have mo: "modify_module ?old (fst (os_path_splitext (os_path_basename (lit ''/tmp/ping.py''))))
             (lit ''/tmp/ping.py'') (reserved_args mock_config) mock_interpreters =
           Inr (''#!/bin/sh'', lit ''old'', lit ''#!/usr/bin/python'')"
    by (simp add: mock_env_def)
  have fn: "final_style (lit ''new'') (lit ''#!/bin/sh'') = lit ''new''"
    and fo: "final_style (lit ''old'') (lit ''#!/bin/sh'') = lit ''old''"
    using marker_not_in_shebang by (simp_all add: final_style_def)
  have rn: "?run ?new = (Inr (lit ''/tmp/generated'', lit ''ping'', lit ''new''), snd (?run ?new))"
    by (simp add: mock_boilerplate_module fn)
  have ro: "?run ?old = (Inr (lit ''/tmp/generated'', lit ''ping'', lit ''old''), snd (?run ?old))"
    by (simp add: mock_boilerplate_module fo)
  show ?thesis
    using offset_warning_iff [OF a mn rn] offset_warning_iff [OF a mo ro] style_names_distinct
    by simp
qed

subsection \<open>The process\<close>

text \<open>
  The \<^verbatim>\<open>finally\<close> clause of line 228 looks up \<^verbatim>\<open>shutil\<close>, which is not bound: every
  run of the script ends in that \<^verbatim>\<open>NameError\<close>, whatever \<^verbatim>\<open>main\<close> did, and the exit
  status of the process is \<open>1\<close>.
\<close>

lemma script_raises:
  "script cfg env = (Inl (NameError (lit ''shutil'')), snd (main cfg env))"
  by (simp add: script_def load_global_shutil)

lemma script_exit_status: "exit_status (fst (script cfg env)) = 1"
  by (simp add: script_raises)

subsection \<open>Exploding the wrapped module\<close>

lemma ansiballz_setup_violation:
  assumes "command = explode_command interpreters modfile"
    and "out = to_text_strict env (fst (popen_argv env command))"
    and "err = to_text env (snd (popen_argv env command))"
    and "length (splitlines out) \<noteq> 2 \<or> \<not> contains EXPANDED_MARKER (splitlines out ! 0)"
  shows "ansiballz_setup env modfile modname interpreters =
           (Inl (SystemExit (ExitStr err)),
            [Chmod modfile, PopenArgv command, Print STARS, Print wrapper_banner, Print out])"
  using assms by (auto simp add: ansiballz_setup_def protocol_violation_def Let_def)

lemma ansiballz_setup_well_formed:
  assumes "command = explode_command interpreters modfile"
    and "out = to_text_strict env (fst (popen_argv env command))"
    and "length (splitlines out) = 2"
    and "contains EXPANDED_MARKER (splitlines out ! 0)"
  shows "ansiballz_setup env modfile modname interpreters =
           (Inl (NameError (lit ''glob'')), [Chmod modfile, PopenArgv command])"
  using assms by (simp add: ansiballz_setup_def load_global_glob Let_def)

lemma runtest_ansiballz_error:
  assumes "ansiballz_setup env modfile modname interpreters = (Inl e, evs)"
  shows "runtest env modfile modname (lit ''ansiballz'') interpreters = (Inl e, evs)"
  using assms by (simp add: runtest_def runtest_setup_def)

text \<open>
  C4. When the output of the explode child is not exactly two lines, or its first line
  does not contain \<^verbatim>\<open>Module expanded into\<close>, \<^verbatim>\<open>ansiballz_setup\<close> prints the row of
  stars, the banner and the raw output and raises \<^verbatim>\<open>SystemExit\<close> with the decoded
  standard error of the child; it returns no pair of paths, \<^verbatim>\<open>runtest\<close> passes the
  exception on without running the module, and the exit status is not zero.
\<close>

theorem explode_protocol_violation:
  assumes "command = explode_command interpreters modfile"
    and "out = to_text_strict env (fst (popen_argv env command))"
    and "err = to_text env (snd (popen_argv env command))"
    and "length (splitlines out) \<noteq> 2 \<or> \<not> contains EXPANDED_MARKER (splitlines out ! 0)"
  shows "ansiballz_setup env modfile modname interpreters =
           (Inl (SystemExit (ExitStr err)),
            [Chmod modfile, PopenArgv command, Print STARS, Print wrapper_banner, Print out])
       \<and> runtest env modfile modname (lit ''ansiballz'') interpreters =
           (Inl (SystemExit (ExitStr err)),
            [Chmod modfile, PopenArgv command, Print STARS, Print wrapper_banner, Print out])
       \<and> exit_status (Inl (SystemExit (ExitStr err))) = 1
       \<and> exit_status (fst (script cfg env)) = 1"
  using ansiballz_setup_violation [OF assms] runtest_ansiballz_error script_exit_status
  by simp

text \<open>
  The concrete explode outputs: no line, one line, three lines, two lines without the
  marker, and two lines with it.
\<close>

lemma mock_explode:
  "explode_command mock_interpreters (lit ''/tmp/generated'') =
     [lit ''/usr/bin/python'', lit ''/tmp/generated'', lit ''explode'']"
  "to_text_strict (mock_env payload style module_out explode_out)
     (fst (popen_argv (mock_env payload style module_out explode_out) command)) = lit explode_out"
  "to_text (mock_env payload style module_out explode_out)
     (snd (popen_argv (mock_env payload style module_out explode_out) command)) = lit ''explode failed''"
  by (simp_all add: explode_command_def mock_interpreters_def mock_env_def)

lemma splitlines_examples:
  "splitlines (lit []) = []"
  "splitlines (lit ''Module expanded into:'') = [lit ''Module expanded into:'']"
  "splitlines (lit ''Module expanded into:\<newline>/tmp/debug_dir\<newline>done'')
     = [lit ''Module expanded into:'', lit ''/tmp/debug_dir'', lit ''done'']"
  "splitlines (lit ''Nothing expanded:\<newline>/tmp/debug_dir\<newline>'')
     = [lit ''Nothing expanded:'', lit ''/tmp/debug_dir'']"
  "splitlines (lit ''Module expanded into:\<newline>/tmp/debug_dir\<newline>'')
     = [lit ''Module expanded into:'', lit ''/tmp/debug_dir'']"
  by (simp_all add: splitlines_def lit_def is_linebreak_def)

lemma marker_examples:
  "\<not> contains EXPANDED_MARKER (lit ''Nothing expanded:'')"
  "contains EXPANDED_MARKER (lit ''Module expanded into:'')"
  by (simp_all add: EXPANDED_MARKER_def lit_def)

theorem explode_protocol_violation_witness:
  "fst (ansiballz_setup (mock_env [] (lit ''new'') [] [])
          (lit ''/tmp/generated'') (lit ''ping'') mock_interpreters) =
     Inl (SystemExit (ExitStr (lit ''explode failed'')))
   \<and> fst (ansiballz_setup (mock_env [] (lit ''new'') [] ''Module expanded into:'')
          (lit ''/tmp/generated'') (lit ''ping'') mock_interpreters) =
     Inl (SystemExit (ExitStr (lit ''explode failed'')))
   \<and> fst (ansiballz_setup
          (mock_env [] (lit ''new'') []
             ''Module expanded into:\<newline>/tmp/debug_dir\<newline>done'')
          (lit ''/tmp/generated'') (lit ''ping'') mock_interpreters) =
     Inl (SystemExit (ExitStr (lit ''explode failed'')))
   \<and> fst (ansiballz_setup
          (mock_env [] (lit ''new'') []
             ''Nothing expanded:\<newline>/tmp/debug_dir\<newline>'')
          (lit ''/tmp/generated'') (lit ''ping'') mock_interpreters) =
     Inl (SystemExit (ExitStr (lit ''explode failed'')))"
proof -
  have c: "[lit ''/usr/bin/python'', lit ''/tmp/generated'', lit ''explode''] =
           explode_command mock_interpreters (lit ''/tmp/generated'')"
    by (simp add: mock_explode)
  have o: "lit explode_out =
           to_text_strict (mock_env payload style module_out explode_out)
             (fst (popen_argv (mock_env payload style module_out explode_out)
                [lit ''/usr/bin/python'', lit ''/tmp/generated'', lit ''explode'']))"
    for payload style module_out explode_out
    by (simp add: mock_explode)
  have e: "lit ''explode failed'' =
           to_text (mock_env payload style module_out explode_out)
             (snd (popen_argv (mock_env payload style module_out explode_out)
                [lit ''/usr/bin/python'', lit ''/tmp/generated'', lit ''explode'']))"
    for payload style module_out explode_out
    by (simp add: mock_explode)
  have v0: "length (splitlines (lit [])) \<noteq> 2 \<or> \<not> contains EXPANDED_MARKER (splitlines (lit []) ! 0)"
    by (simp add: splitlines_examples)
  have v1: "length (splitlines (lit ''Module expanded into:'')) \<noteq> 2
            \<or> \<not> contains EXPANDED_MARKER (splitlines (lit ''Module expanded into:'') ! 0)"
    by (simp add: splitlines_examples)
  have v3: "length (splitlines (lit ''Module expanded into:\<newline>/tmp/debug_dir\<newline>done'')) \<noteq> 2
            \<or> \<not> contains EXPANDED_MARKER
                 (splitlines (lit ''Module expanded into:\<newline>/tmp/debug_dir\<newline>done'') ! 0)"
    by (simp add: splitlines_examples)
  have v2: "length (splitlines (lit ''Nothing expanded:\<newline>/tmp/debug_dir\<newline>'')) \<noteq> 2
            \<or> \<not> contains EXPANDED_MARKER
                 (splitlines (lit ''Nothing expanded:\<newline>/tmp/debug_dir\<newline>'') ! 0)"
    by (simp add: splitlines_examples marker_examples)
  show ?thesis
    using explode_protocol_violation [OF c o e v0, where modname = "lit ''ping''" and cfg = mock_config]
      explode_protocol_violation [OF c o e v1, where modname = "lit ''ping''" and cfg = mock_config]
      explode_protocol_violation [OF c o e v3, where modname = "lit ''ping''" and cfg = mock_config]
      explode_protocol_violation [OF c o e v2, where modname = "lit ''ping''" and cfg = mock_config]
    by simp
qed

subsection \<open>Running the module\<close>

lemma runtest_setup_plain:
  assumes "module_style \<noteq> lit ''ansiballz''"
  shows "runtest_setup env modfile modname module_style interpreters = (Inr (modfile, []), [])"
  using assms by (simp add: runtest_setup_def)

lemma runtest_after_setup:
  assumes "runtest_setup env modfile modname module_style interpreters = (Inr (modfile', invoke), evs)"
  shows "runtest env modfile modname module_style interpreters =
           (fst (runtest_run env modfile' invoke), evs @ snd (runtest_run env modfile' invoke))"
  using assms by (simp add: runtest_def)

lemma runtest_run_invalid:
  assumes "out = to_text env (fst (popen_shell env (invoke @ modfile)))"
    and "err = to_text env (snd (popen_shell env (invoke @ modfile)))"
    and "json_loads env out = Inl e"
  shows "runtest_run env modfile invoke =
           (Inl (SystemExit (ExitInt 1)),
            [Chmod modfile, PopenShell (invoke @ modfile),
             Print STARS, Print (lit ''RAW OUTPUT''), Print out, Print err,
             Print STARS, Print (lit ''INVALID OUTPUT FORMAT''), Print out, PrintExc e])"
  using assms by (simp add: runtest_run_def Let_def)

lemma runtest_run_parsed:
  assumes "out = to_text env (fst (popen_shell env (invoke @ modfile)))"
    and "err = to_text env (snd (popen_shell env (invoke @ modfile)))"
    and "json_loads env out = Inr results"
  shows "runtest_run env modfile invoke =
           (Inr (),
            [Chmod modfile, PopenShell (invoke @ modfile),
             Print STARS, Print (lit ''RAW OUTPUT''), Print out, Print err,
             Print STARS, Print (lit ''PARSED OUTPUT''), Print (json_dumps env results)])"
  using assms by (simp add: runtest_run_def Let_def)

text \<open>
  C5. When the module is run (the setup of lines 136 to 140 returned) and
  \<^verbatim>\<open>json.loads\<close> raises on its standard output, \<^verbatim>\<open>runtest\<close> prints the raw output and
  the standard error, then the row of stars, \<^verbatim>\<open>INVALID OUTPUT FORMAT\<close>, the raw output
  again and the traceback of the decoding error, and raises \<^verbatim>\<open>SystemExit(1)\<close>. These are
  all its events: lines 162 to 164, which print \<^verbatim>\<open>PARSED OUTPUT\<close> and the decoded value,
  are not reached. The exit status is not zero.
\<close>

theorem runtest_invalid_output:
  assumes "runtest_setup env modfile modname module_style interpreters = (Inr (modfile', invoke), evs)"
    and "out = to_text env (fst (popen_shell env (invoke @ modfile')))"
    and "err = to_text env (snd (popen_shell env (invoke @ modfile')))"
    and "json_loads env out = Inl e"
  shows "runtest env modfile modname module_style interpreters =
           (Inl (SystemExit (ExitInt 1)),
            evs @ [Chmod modfile', PopenShell (invoke @ modfile'),
                   Print STARS, Print (lit ''RAW OUTPUT''), Print out, Print err,
                   Print STARS, Print (lit ''INVALID OUTPUT FORMAT''), Print out, PrintExc e])
       \<and> exit_status (Inl (SystemExit (ExitInt 1))) = 1
       \<and> exit_status (fst (script cfg env)) = 1"
  using runtest_after_setup [OF assms(1)] runtest_run_invalid [OF assms(2,3,4)] script_exit_status
  by simp

lemma mock_shell:
  "to_text (mock_env payload style module_out explode_out)
     (fst (popen_shell (mock_env payload style module_out explode_out) invoke)) = lit module_out"
  "to_text (mock_env payload style module_out explode_out)
     (snd (popen_shell (mock_env payload style module_out explode_out) invoke)) = []"
  by (simp_all add: mock_env_def lit_def)

lemma mock_json_loads:
  "json_loads (mock_env payload style module_out explode_out) (lit mock_document) = Inr mock_result"
  "json_loads (mock_env payload style module_out explode_out) (lit ''pong'') =
     Inl (Raised (lit ''JSONDecodeError''))"
  "json_dumps (mock_env payload style module_out explode_out) mock_result = mock_pretty"
  by (simp_all add: mock_env_def mock_document_def lit_def)

theorem runtest_invalid_output_witness:
  "runtest (mock_env ''#!/bin/sh'' (lit ''old'') ''pong'' [])
     (lit ''/tmp/generated'') (lit ''ping'') (lit ''old'') mock_interpreters =
   (Inl (SystemExit (ExitInt 1)),
    [Chmod (lit ''/tmp/generated''), PopenShell (lit ''/tmp/generated''),
     Print STARS, Print (lit ''RAW OUTPUT''), Print (lit ''pong''), Print [],
     Print STARS, Print (lit ''INVALID OUTPUT FORMAT''), Print (lit ''pong''),
     PrintExc (Raised (lit ''JSONDecodeError''))])"
proof -
  let ?env = "mock_env ''#!/bin/sh'' (lit ''old'') ''pong'' []"
  have s: "runtest_setup ?env (lit ''/tmp/generated'') (lit ''ping'') (lit ''old'') mock_interpreters =
             (Inr (lit ''/tmp/generated'', []), [])"
    using style_names_distinct by (simp add: runtest_setup_plain)
  have o: "lit ''pong'' = to_text ?env (fst (popen_shell ?env ([] @ lit ''/tmp/generated'')))"
    by (simp add: mock_shell)
  have e: "[] = to_text ?env (snd (popen_shell ?env ([] @ lit ''/tmp/generated'')))"
    by (simp add: mock_shell)
  have j: "json_loads ?env (lit ''pong'') = Inl (Raised (lit ''JSONDecodeError''))"
    by (rule mock_json_loads)
  show ?thesis
    using runtest_invalid_output [OF s o e j, where cfg = mock_config] by simp
qed

lemma main_runs_test:
  assumes "parse env = Inr args"
    and "boilerplate_module cfg env (arg_module_path args) (arg_module_args args)
           (get_interpreters env (arg_interpreter args)) (arg_check args) (arg_filename args) =
         (Inr (modfile, modname, module_style), evs)"
    and "arg_execute args" and "\<not> truthy (arg_debugger args)"
  shows "main cfg env =
           (fst (runtest env modfile modname module_style (get_interpreters env (arg_interpreter args))),
            evs @ snd (runtest env modfile modname module_style (get_interpreters env (arg_interpreter args))))"
  using assms by (simp add: main_def Let_def)

text \<open>
  C3 does not hold of the code. The module \<^verbatim>\<open>/tmp/ping.py\<close>, packaged with the style
  \<^verbatim>\<open>old\<close>, writes \<^verbatim>\<open>{"changed": false, "msg": "ok"}\<close> to its standard output. The
  harness prints the decoded value under \<^verbatim>\<open>PARSED OUTPUT\<close> and \<^verbatim>\<open>main\<close> returns; then
  the \<^verbatim>\<open>finally\<close> clause of line 228 raises \<^verbatim>\<open>NameError\<close> for \<^verbatim>\<open>shutil\<close>, and the
  process exits with status \<open>1\<close>, not \<open>0\<close>.
\<close>

theorem valid_output_exit_status:
  "script mock_config (mock_env ''#!/bin/sh'' (lit ''old'') mock_document []) =
     (Inl (NameError (lit ''shutil'')),
      [ModifyModule (lit ''ping'') (lit ''/tmp/ping.py'') (reserved_args mock_config) mock_interpreters,
       Print (saving_note (lit ''/tmp/generated'')),
       WriteFile (lit ''/tmp/generated'') ''#!/bin/sh'',
       Chmod (lit ''/tmp/generated''), PopenShell (lit ''/tmp/generated''),
       Print STARS, Print (lit ''RAW OUTPUT''), Print (lit mock_document), Print [],
       Print STARS, Print (lit ''PARSED OUTPUT''), Print mock_pretty])
   \<and> fst (main mock_config (mock_env ''#!/bin/sh'' (lit ''old'') mock_document [])) = Inr ()
   \<and> exit_status (fst (script mock_config (mock_env ''#!/bin/sh'' (lit ''old'') mock_document []))) = 1"
proof -
  let ?env = "mock_env ''#!/bin/sh'' (lit ''old'') mock_document []"
  have p: "parse ?env = Inr mock_namespace" "get_interpreters ?env i = mock_interpreters" for i
    by (simp_all add: mock_env_def)
  have fo: "final_style (lit ''old'') (lit ''#!/bin/sh'') = lit ''old''"
    using marker_not_in_shebang by (simp add: final_style_def)
  have b: "boilerplate_module mock_config ?env (arg_module_path mock_namespace) (arg_module_args mock_namespace)
           (get_interpreters ?env (arg_interpreter mock_namespace)) (arg_check mock_namespace)
           (arg_filename mock_namespace) =
         (Inr (lit ''/tmp/generated'', lit ''ping'', lit ''old''),
          [ModifyModule (lit ''ping'') (lit ''/tmp/ping.py'') (reserved_args mock_config) mock_interpreters,
           Print (saving_note (lit ''/tmp/generated'')),
           WriteFile (lit ''/tmp/generated'') ''#!/bin/sh''])"
    by (simp add: mock_namespace_def p mock_boilerplate_module fo)
  have x: "arg_execute mock_namespace" "\<not> truthy (arg_debugger mock_namespace)"
    by (simp_all add: mock_namespace_def truthy_def)
  have s: "runtest_setup ?env (lit ''/tmp/generated'') (lit ''ping'') (lit ''old'') mock_interpreters =
             (Inr (lit ''/tmp/generated'', []), [])"
    using style_names_distinct by (simp add: runtest_setup_plain)
  have o: "lit mock_document = to_text ?env (fst (popen_shell ?env ([] @ lit ''/tmp/generated'')))"
    by (simp add: mock_shell)
  have e: "[] = to_text ?env (snd (popen_shell ?env ([] @ lit ''/tmp/generated'')))"
    by (simp add: mock_shell)
  have r: "runtest ?env (lit ''/tmp/generated'') (lit ''ping'') (lit ''old'') mock_interpreters =
      (Inr (),
       [Chmod (lit ''/tmp/generated''), PopenShell (lit ''/tmp/generated''),
       Print STARS, Print (lit ''RAW OUTPUT''), Print (lit mock_document), Print [],
       Print STARS, Print (lit ''PARSED OUTPUT''), Print mock_pretty])"
    using runtest_after_setup [OF s] runtest_run_parsed [OF o e mock_json_loads(1)]
    by (simp add: mock_json_loads)
  have m: "snd (main mock_config ?env) =
      [ModifyModule (lit ''ping'') (lit ''/tmp/ping.py'') (reserved_args mock_config) mock_interpreters,
       Print (saving_note (lit ''/tmp/generated'')),
       WriteFile (lit ''/tmp/generated'') ''#!/bin/sh'',
       Chmod (lit ''/tmp/generated''), PopenShell (lit ''/tmp/generated''),
       Print STARS, Print (lit ''RAW OUTPUT''), Print (lit mock_document), Print [],
       Print STARS, Print (lit ''PARSED OUTPUT''), Print mock_pretty]"
    unfolding main_runs_test [OF p(1) b x] p r by simp
  have f: "fst (main mock_config ?env) = Inr ()"
    unfolding main_runs_test [OF p(1) b x] p r by simp
  show ?thesis
    by (simp add: script_raises m f)
qed

subsection \<open>Searching the exploded tree\<close>

text \<open>
  The search of lines 197 to 202 on its own: when no directory of the walks holds a file
  with the name of the module, the path is left as it was.
\<close>

lemma find_in_filenames_no_match:
  "modname @ lit ''.py'' \<notin> set filenames \<Longrightarrow>
   find_in_filenames modname dirname filenames modfile = modfile"
  by (induction filenames) auto

lemma find_in_walk_no_match:
  "\<forall>(dirname, directories, filenames) \<in> set walk. modname @ lit ''.py'' \<notin> set filenames \<Longrightarrow>
   find_in_walk modname walk modfile = modfile"
  unfolding find_in_walk_def
  by (induction walk) (auto simp add: find_in_filenames_no_match)

lemma find_module_no_match:
  "\<forall>module_dir \<in> set module_dirs. \<forall>(dirname, directories, filenames) \<in> set (os_walk env module_dir).
      modname @ lit ''.py'' \<notin> set filenames \<Longrightarrow>
   find_module env modname module_dirs modfile = modfile"
  unfolding find_module_def
  by (induction module_dirs) (auto simp add: find_in_walk_no_match)

text \<open>
  C2 does not hold of the code. The explode child answers with two well-formed lines and
  the debug directory \<^verbatim>\<open>/tmp/debug_dir\<close> holds \<^verbatim>\<open>ansible/modules/ping.py\<close> and
  \<^verbatim>\<open>ansible/modules/net/ping.py\<close>. The function returns no path: line 194 looks up
  \<^verbatim>\<open>glob\<close>, which is not bound, and raises \<^verbatim>\<open>NameError\<close>. The search loop on its own
  does not stop at the first match either: the \<^verbatim>\<open>break\<close> of line 202 ends the loop over
  the files of \<^verbatim>\<open>ansible/modules\<close> with the first match
  \<^verbatim>\<open>/tmp/debug_dir/ansible/modules/ping.py\<close>, the walk goes on into \<^verbatim>\<open>net\<close>, and the
  search ends with the later match \<^verbatim>\<open>/tmp/debug_dir/ansible/modules/net/ping.py\<close>.
\<close>

theorem first_match_not_returned:
  "ansiballz_setup (mock_env [] (lit ''new'') [] ''Module expanded into:\<newline>/tmp/debug_dir\<newline>'')
     (lit ''/tmp/generated'') (lit ''ping'') mock_interpreters =
   (Inl (NameError (lit ''glob'')),
    [Chmod (lit ''/tmp/generated''),
     PopenArgv [lit ''/usr/bin/python'', lit ''/tmp/generated'', lit ''explode'']])
   \<and> find_in_filenames (lit ''ping'') (lit ''/tmp/debug_dir/ansible/modules'') [lit ''ping.py'']
        (lit ''/tmp/generated'') = lit ''/tmp/debug_dir/ansible/modules/ping.py''
   \<and> find_module (mock_env [] (lit ''new'') [] ''Module expanded into:\<newline>/tmp/debug_dir\<newline>'')
        (lit ''ping'') [lit ''/tmp/debug_dir/ansible/modules''] (lit ''/tmp/generated'') =
      lit ''/tmp/debug_dir/ansible/modules/net/ping.py''"
proof -
  let ?env = "mock_env [] (lit ''new'') [] ''Module expanded into:\<newline>/tmp/debug_dir\<newline>''"
  have c: "[lit ''/usr/bin/python'', lit ''/tmp/generated'', lit ''explode''] =
           explode_command mock_interpreters (lit ''/tmp/generated'')"
    by (simp add: mock_explode)
  have o: "lit ''Module expanded into:\<newline>/tmp/debug_dir\<newline>'' =
           to_text_strict ?env (fst (popen_argv ?env
                [lit ''/usr/bin/python'', lit ''/tmp/generated'', lit ''explode'']))"
    by (simp add: mock_explode)
  have l: "length (splitlines (lit ''Module expanded into:\<newline>/tmp/debug_dir\<newline>'')) = 2"
    and m: "contains EXPANDED_MARKER (splitlines (lit ''Module expanded into:\<newline>/tmp/debug_dir\<newline>'') ! 0)"
    by (simp_all add: splitlines_examples marker_examples)
  have f: "find_in_filenames (lit ''ping'') (lit ''/tmp/debug_dir/ansible/modules'') [lit ''ping.py'']
        (lit ''/tmp/generated'') = lit ''/tmp/debug_dir/ansible/modules/ping.py''"
    by (simp add: os_path_join_def lit_def)
  have g: "find_module ?env (lit ''ping'') [lit ''/tmp/debug_dir/ansible/modules''] (lit ''/tmp/generated'') =
      lit ''/tmp/debug_dir/ansible/modules/net/ping.py''"
    by (simp add: find_module_def find_in_walk_def mock_env_def mock_walk_def os_path_join_def lit_def)
  from ansiballz_setup_well_formed [OF c o l m] f g show ?thesis by simp
qed

text \<open>
  C9 does not hold of the code. Whenever the explode child answers with two lines of
  which the first contains the marker, whatever the debug directory holds,
  \<^verbatim>\<open>ansiballz_setup\<close> raises \<^verbatim>\<open>NameError\<close> for \<^verbatim>\<open>glob\<close> at line 194: it returns
  neither the staged path nor the path of the argument file, and \<^verbatim>\<open>runtest\<close> passes
  the exception on.
\<close>

theorem well_formed_explode_raises:
  assumes "command = explode_command interpreters modfile"
    and "out = to_text_strict env (fst (popen_argv env command))"
    and "length (splitlines out) = 2"
    and "contains EXPANDED_MARKER (splitlines out ! 0)"
  shows "ansiballz_setup env modfile modname interpreters =
           (Inl (NameError (lit ''glob'')), [Chmod modfile, PopenArgv command])
       \<and> runtest env modfile modname (lit ''ansiballz'') interpreters =
           (Inl (NameError (lit ''glob'')), [Chmod modfile, PopenArgv command])"
  using ansiballz_setup_well_formed [OF assms] runtest_ansiballz_error by simp

theorem well_formed_explode_raises_witness:
  "fst (ansiballz_setup (mock_env [] (lit ''new'') [] ''Module expanded into:\<newline>/tmp/debug_dir\<newline>'')
     (lit ''/tmp/generated'') (lit ''pong'') mock_interpreters) = Inl (NameError (lit ''glob''))"
proof -
  let ?env = "mock_env [] (lit ''new'') [] ''Module expanded into:\<newline>/tmp/debug_dir\<newline>''"
  have c: "[lit ''/usr/bin/python'', lit ''/tmp/generated'', lit ''explode''] =
           explode_command mock_interpreters (lit ''/tmp/generated'')"
    by (simp add: mock_explode)
  have o: "lit ''Module expanded into:\<newline>/tmp/debug_dir\<newline>'' =
           to_text_strict ?env (fst (popen_argv ?env
                [lit ''/usr/bin/python'', lit ''/tmp/generated'', lit ''explode'']))"
    by (simp add: mock_explode)
  have l: "length (splitlines (lit ''Module expanded into:\<newline>/tmp/debug_dir\<newline>'')) = 2"
    and m: "contains EXPANDED_MARKER (splitlines (lit ''Module expanded into:\<newline>/tmp/debug_dir\<newline>'') ! 0)"
    by (simp_all add: splitlines_examples marker_examples)
  show ?thesis
    using well_formed_explode_raises [OF c o l m, where modname = "lit ''pong''"] by simp
qed

subsection \<open>Arguments that are not empty\<close>

text \<open>
  C7 does not hold of the code. For the argument string \<^verbatim>\<open>a=1 a=2\<close> line 97 calls
  \<^verbatim>\<open>parse_kv\<close>; when that returns, line 98 looks up \<^verbatim>\<open>utils_vars\<close>, which is not
  bound, and raises \<^verbatim>\<open>NameError\<close>. No dictionary is returned, whatever \<^verbatim>\<open>parse_kv\<close>
  does.
\<close>

theorem duplicate_keys_raise:
  "boilerplate_module_args cfg env (lit ''a=1 a=2'') False =
     Inl (case parse_kv env (lit ''a=1 a=2'') of
            Inl e \<Rightarrow> e
          | Inr parsed_args \<Rightarrow> NameError (lit ''utils_vars''))"
proof -
  have plain: "\<not> startswith (lit ''a=1 a=2'') (lit ''@'')" "\<not> startswith (lit ''a=1 a=2'') (lit ''{'')"
    "lit ''a=1 a=2'' \<noteq> []"
    by (simp_all add: lit_def)
  show ?thesis
    by (simp add: boilerplate_module_args_def load_args_def parse_args_def load_global_utils_vars
        plain split: sum.split)
qed

text \<open>
  C8 does not hold of the code. Every argument string that is not empty ends in an
  exception: \<^verbatim>\<open>NameError\<close> for \<^verbatim>\<open>utils_vars\<close> at line 90 (\<^verbatim>\<open>@file\<close>), at line 93
  (literal document) or at line 98 (\<^verbatim>\<open>key=value\<close>, when \<^verbatim>\<open>parse_kv\<close> returned), or the
  exception of \<^verbatim>\<open>parse_kv\<close>. No dictionary is returned, so no value of the caller
  reaches the result.
\<close>

theorem nonempty_args_raise:
  "boilerplate_module_args cfg env (c # args) check =
     Inl (if c = 0x40 then NameError (lit ''utils_vars'')
          else if c = 0x7B then NameError (lit ''utils_vars'')
          else (case parse_kv env (c # args) of
                  Inl e \<Rightarrow> e
                | Inr parsed_args \<Rightarrow> NameError (lit ''utils_vars'')))"
proof -
  have at: "startswith (c # args) (lit ''@'') = (c = 0x40)"
    and brace: "startswith (c # args) (lit ''{'') = (c = 0x7B)"
    by (simp_all add: lit_def)
  show ?thesis
    by (simp add: boilerplate_module_args_def load_args_def parse_args_def load_global_utils_vars
        at brace split: sum.split)
qed

end
